theory Spec2Isabelle
  imports Complex_Main
begin

section \<open>Python values, exceptions and the pairing library\<close>

text \<open>
  The module \<^verbatim>\<open>Part 1/credential.py\<close> works on flat Python lists that mix scalars and
  group elements (\<^verbatim>\<open>sk = [x] + [X_1] + y\<close>, \<^verbatim>\<open>pk = [g_1] + Y_1 + [g_2] + [X_2] + Y_2\<close>),
  so a key is a list of dynamically typed values, and every raise of the interpreter is
  a branch \<open>Inl\<close> of the result.
\<close>

datatype error = IndexError | TypeError | NotImplementedError

text \<open>
  Modelled from the spec: the bilinear-group library
  (\<^verbatim>\<open>petrelic.multiplicative.pairing\<close>) is an external collaborator and not part of the
  repository. Following section 3 of the specification, the two source groups and the
  target group have the same prime order \<open>q\<close>, each with a fixed generator, and
  \<open>e(g\<^sup>a, h\<^sup>b) = e(g, h)\<^sup>a\<^sup>b\<close>. An element is written by its exponent over the generator
  of its group, reduced modulo \<open>q\<close>; \<open>q\<close> is a parameter of every operation.
  \<open>Bn\<close> is a scalar (a Python integer or the library's big number).
\<close>

datatype val = Bn int | G1 int | G2 int | GT int

text \<open>What a function of type \<^verbatim>\<open>Any\<close> hands back when it is not a group element.\<close>

datatype pyobj = PyNone | PyTuple "val list"

text \<open>
  The result of \<^verbatim>\<open>/\<close> on two Python 3 integers is a float, whatever its value;
  the result of \<^verbatim>\<open>len\<close> is an integer.
\<close>

datatype pynum = PyInt int | PyFloat rat

definition ebind :: "error + 'a \<Rightarrow> ('a \<Rightarrow> error + 'b) \<Rightarrow> error + 'b" where
  "ebind m f = (case m of Inl e \<Rightarrow> Inl e | Inr x \<Rightarrow> f x)"

fun mapM :: "('a \<Rightarrow> error + 'b) \<Rightarrow> 'a list \<Rightarrow> error + 'b list" where
  "mapM f [] = Inr []"
| "mapM f (x # xs) = ebind (f x) (\<lambda>y. ebind (mapM f xs) (\<lambda>ys. Inr (y # ys)))"

subsection \<open>Lists\<close>

text \<open>\<^verbatim>\<open>xs[i]\<close>: a negative index counts from the end, anything out of range raises.\<close>

definition py_index :: "'a list \<Rightarrow> int \<Rightarrow> error + 'a" where
  "py_index xs i =
     (if 0 \<le> i \<and> i < int (length xs) then Inr (xs ! nat i)
      else if - int (length xs) \<le> i \<and> i < 0 then Inr (xs ! nat (int (length xs) + i))
      else Inl IndexError)"

text \<open>\<^verbatim>\<open>xs[k:]\<close> for an integer \<open>k\<close>: never raises.\<close>

definition py_slice_from :: "'a list \<Rightarrow> int \<Rightarrow> 'a list" where
  "py_slice_from xs k =
     (if 0 \<le> k then drop (nat k) xs else drop (nat (int (length xs) + k)) xs)"

text \<open>\<^verbatim>\<open>xs[n:]\<close> for a number \<open>n\<close>: a float is refused as a slice index.\<close>

definition slice_from_num :: "'a list \<Rightarrow> pynum \<Rightarrow> error + 'a list" where
  "slice_from_num xs n =
     (case n of PyInt k \<Rightarrow> Inr (py_slice_from xs k) | PyFloat f \<Rightarrow> Inl TypeError)"

text \<open>\<^verbatim>\<open>a / b\<close>; the only divisor in the module is the constant 2.\<close>

definition true_div :: "int \<Rightarrow> int \<Rightarrow> pynum" where
  "true_div a b = PyFloat (of_int a / of_int b)"

definition num_add :: "pynum \<Rightarrow> int \<Rightarrow> pynum" where
  "num_add n k = (case n of PyInt a \<Rightarrow> PyInt (a + k) | PyFloat f \<Rightarrow> PyFloat (f + of_int k))"

subsection \<open>Group and scalar arithmetic\<close>

text \<open>
  Modelled from the spec: the operations of the external arithmetic library, on the
  exponent representation. An operation applied to operands it is not made for
  is reported as \<open>TypeError\<close>.
\<close>

definition generator1 :: "int \<Rightarrow> val" where
  "generator1 q = G1 (1 mod q)"

definition generator2 :: "int \<Rightarrow> val" where
  "generator2 q = G2 (1 mod q)"

definition neutral_element1 :: val where
  "neutral_element1 = G1 0"

text \<open>\<^verbatim>\<open>a ** b\<close>\<close>

fun py_pow :: "int \<Rightarrow> val \<Rightarrow> val \<Rightarrow> error + val" where
  "py_pow q (G1 a) (Bn n) = Inr (G1 (a * n mod q))"
| "py_pow q (G2 a) (Bn n) = Inr (G2 (a * n mod q))"
| "py_pow q (GT a) (Bn n) = Inr (GT (a * n mod q))"
| "py_pow q _ _ = Inl TypeError"

text \<open>\<^verbatim>\<open>a * b\<close>\<close>

fun py_mul :: "int \<Rightarrow> val \<Rightarrow> val \<Rightarrow> error + val" where
  "py_mul q (Bn a) (Bn b) = Inr (Bn (a * b))"
| "py_mul q (G1 a) (G1 b) = Inr (G1 ((a + b) mod q))"
| "py_mul q (G2 a) (G2 b) = Inr (G2 ((a + b) mod q))"
| "py_mul q (GT a) (GT b) = Inr (GT ((a + b) mod q))"
| "py_mul q _ _ = Inl TypeError"

text \<open>\<^verbatim>\<open>a + b\<close>\<close>

fun py_add :: "val \<Rightarrow> val \<Rightarrow> error + val" where
  "py_add (Bn a) (Bn b) = Inr (Bn (a + b))"
| "py_add _ _ = Inl TypeError"

text \<open>\<^verbatim>\<open>a.div(b)\<close>\<close>

fun py_div :: "int \<Rightarrow> val \<Rightarrow> val \<Rightarrow> error + val" where
  "py_div q (G1 a) (G1 b) = Inr (G1 ((a - b) mod q))"
| "py_div q (G2 a) (G2 b) = Inr (G2 ((a - b) mod q))"
| "py_div q (GT a) (GT b) = Inr (GT ((a - b) mod q))"
| "py_div q _ _ = Inl TypeError"

text \<open>\<^verbatim>\<open>a.pair(b)\<close>\<close>

fun py_pair :: "int \<Rightarrow> val \<Rightarrow> val \<Rightarrow> error + val" where
  "py_pair q (G1 a) (G2 b) = Inr (GT (a * b mod q))"
| "py_pair q _ _ = Inl TypeError"

text \<open>\<^verbatim>\<open>sum(xs)\<close>: starts from the integer 0.\<close>

fun py_sum_from :: "val \<Rightarrow> val list \<Rightarrow> error + val" where
  "py_sum_from acc [] = Inr acc"
| "py_sum_from acc (x # xs) = ebind (py_add acc x) (\<lambda>acc'. py_sum_from acc' xs)"

definition py_sum :: "val list \<Rightarrow> error + val" where
  "py_sum xs = py_sum_from (Bn 0) xs"

text \<open>
  \<^verbatim>\<open>math.prod(xs)\<close>: starts from the integer 1 and multiplies the elements onto it
  from the left, so the first product is \<^verbatim>\<open>1 * xs[0]\<close> and the result on the empty list
  is the integer 1.
\<close>

fun py_prod_from :: "int \<Rightarrow> val \<Rightarrow> val list \<Rightarrow> error + val" where
  "py_prod_from q acc [] = Inr acc"
| "py_prod_from q acc (x # xs) = ebind (py_mul q acc x) (\<lambda>acc'. py_prod_from q acc' xs)"

definition math_prod :: "int \<Rightarrow> val list \<Rightarrow> error + val" where
  "math_prod q xs = py_prod_from q (Bn 1) xs"

subsection \<open>Randomness\<close>

text \<open>
  The source of randomness is an infinite supply of integers, threaded through every
  function that draws from it. \<^verbatim>\<open>G1.order().random()\<close> takes the next one, reduced into
  the scalar range.
\<close>

type_synonym rng = "nat \<Rightarrow> int"

definition random_bn :: "int \<Rightarrow> rng \<Rightarrow> int \<times> rng" where
  "random_bn q rs = (rs 0 mod q, \<lambda>n. rs (Suc n))"

text \<open>\<^verbatim>\<open>[G1.order().random() for i in range(L)]\<close>\<close>

fun randoms :: "int \<Rightarrow> nat \<Rightarrow> rng \<Rightarrow> int list \<times> rng" where
  "randoms q 0 rs = ([], rs)"
| "randoms q (Suc n) rs =
     (case random_bn q rs of (r, rs') \<Rightarrow>
        (case randoms q n rs' of (ys, rs'') \<Rightarrow> (r # ys, rs'')))"

section \<open>Signature scheme\<close>

text \<open>\<^verbatim>\<open>generate_key(attributes)\<close>\<close>

definition generate_key ::
  "int \<Rightarrow> 'a list \<Rightarrow> rng \<Rightarrow> error + ((val list \<times> val list) \<times> rng)" where
  "generate_key q attributes rs =
     (let L = length attributes;
          g_1 = generator1 q;
          g_2 = generator2 q
      in case random_bn q rs of (x, rs1) \<Rightarrow>
         ebind (py_pow q g_1 (Bn x)) (\<lambda>X_1.
         ebind (py_pow q g_2 (Bn x)) (\<lambda>X_2.
         case randoms q L rs1 of (y, rs2) \<Rightarrow>
         ebind (mapM (\<lambda>i. py_pow q g_1 (Bn i)) y) (\<lambda>Y_1.
         ebind (mapM (\<lambda>i. py_pow q g_2 (Bn i)) y) (\<lambda>Y_2.
         let pk = [g_1] @ Y_1 @ [g_2] @ [X_2] @ Y_2;
             sk = [Bn x] @ [X_1] @ map Bn y
         in Inr ((sk, pk), rs2))))))"

text \<open>\<^verbatim>\<open>sign(sk, msgs)\<close>: draws nothing from the random supply.\<close>

definition sign :: "int \<Rightarrow> val list \<Rightarrow> int list \<Rightarrow> error + (val \<times> val)" where
  "sign q sk msgs =
     (let h = generator1 q in
      ebind (py_index sk 0) (\<lambda>x.
      ebind (mapM (\<lambda>(a, b). py_mul q (Bn a) b) (zip msgs (py_slice_from sk 2))) (\<lambda>ps.
      ebind (py_sum ps) (\<lambda>s.
      ebind (py_add x s) (\<lambda>e.
      ebind (py_pow q h e) (\<lambda>s2.
      Inr (h, s2)))))))"

text \<open>
  \<^verbatim>\<open>verify(pk, signature, msgs)\<close>: \<open>e1\<close> and \<open>e2\<close> are computed before the
  \<^verbatim>\<open>return\<close>, whose \<^verbatim>\<open>and\<close> evaluates the pairings only for a non-neutral first component.
\<close>

definition verify :: "int \<Rightarrow> val list \<Rightarrow> val \<times> val \<Rightarrow> int list \<Rightarrow> error + bool" where
  "verify q pk signature msgs =
     (let L = int (length msgs);
          s1 = fst signature;
          s2 = snd signature
      in
      ebind (mapM (\<lambda>(a, b). py_pow q a (Bn b)) (zip (py_slice_from pk (L + 3)) msgs)) (\<lambda>ps.
      ebind (math_prod q ps) (\<lambda>p.
      ebind (py_index msgs (L + 2)) (\<lambda>m.
      ebind (py_mul q p (Bn m)) (\<lambda>e1.
      ebind (py_index pk (L + 1)) (\<lambda>e2.
      if s1 \<noteq> neutral_element1
      then ebind (py_pair q s1 e1) (\<lambda>l.
           ebind (py_pair q s2 e2) (\<lambda>r. Inr (l = r)))
      else Inr False))))))"

section \<open>Issuance protocol\<close>

text \<open>\<^verbatim>\<open>create_issue_request(pk, user_attributes)\<close>: an attribute map is a list of
  (attribute, index) pairs. The function returns the commitment alone.\<close>

definition create_issue_request ::
  "int \<Rightarrow> val list \<Rightarrow> (int \<times> int) list \<Rightarrow> rng \<Rightarrow> error + (val \<times> rng)" where
  "create_issue_request q pk user_attributes rs =
     (let L = true_div (int (length pk) - 3) 2 in
      case random_bn q rs of (t, rs') \<Rightarrow>
      ebind (py_index pk 0) (\<lambda>g.
      ebind (slice_from_num pk (num_add L 3)) (\<lambda>y.
      let attributes = map fst user_attributes;
          indices = map snd user_attributes
      in
      ebind (mapM (py_index y) indices) (\<lambda>y.
      ebind (py_pow q g (Bn t)) (\<lambda>gt.
      ebind (mapM (\<lambda>(a, b). py_pow q a (Bn b)) (zip y attributes)) (\<lambda>ps.
      ebind (math_prod q ps) (\<lambda>p.
      ebind (py_mul q gt p) (\<lambda>C.
      Inr (C, rs')))))))))"

text \<open>\<^verbatim>\<open>sign_issue_request(sk, pk, request, issuer_attributes)\<close>\<close>

definition sign_issue_request ::
  "int \<Rightarrow> val list \<Rightarrow> val list \<Rightarrow> val \<Rightarrow> (int \<times> int) list \<Rightarrow> rng
     \<Rightarrow> error + ((val \<times> val) \<times> rng)" where
  "sign_issue_request q sk pk request issuer_attributes rs =
     (case random_bn q rs of (u, rs') \<Rightarrow>
      let L = true_div (int (length pk) - 3) 2 in
      ebind (slice_from_num pk (num_add L 3)) (\<lambda>y.
      let attributes = map fst issuer_attributes;
          indices = map snd issuer_attributes
      in
      ebind (mapM (py_index y) indices) (\<lambda>y.
      ebind (py_index pk 0) (\<lambda>g.
      ebind (py_pow q g (Bn u)) (\<lambda>s_1.
      ebind (py_index sk 1) (\<lambda>X_1.
      ebind (py_mul q X_1 request) (\<lambda>xc.
      ebind (mapM (\<lambda>(a, b). py_pow q a (Bn b)) (zip y attributes)) (\<lambda>ps.
      ebind (math_prod q ps) (\<lambda>p.
      ebind (py_mul q xc p) (\<lambda>base.
      ebind (py_pow q base (Bn u)) (\<lambda>s_2.
      Inr ((s_1, s_2), rs'))))))))))))"

text \<open>\<^verbatim>\<open>obtain_credential(pk, response)\<close>: there is no parameter for the user's
  blinding scalar; one is drawn here.\<close>

definition obtain_credential ::
  "int \<Rightarrow> val list \<Rightarrow> val \<times> val \<Rightarrow> rng \<Rightarrow> error + ((val \<times> val) \<times> rng)" where
  "obtain_credential q pk response rs =
     (case random_bn q rs of (t, rs') \<Rightarrow>
      ebind (py_pow q (fst response) (Bn t)) (\<lambda>d.
      ebind (py_div q (snd response) d) (\<lambda>s.
      Inr ((fst response, s), rs'))))"

section \<open>Showing protocol\<close>

text \<open>
  The right-hand side of the assignment to the local \<^verbatim>\<open>s\<close> in
  \<^verbatim>\<open>create_disclosure_proof\<close>:
  \<^verbatim>\<open>(credential[0]**r, (credential[1]*(credential[0]**t) ** r))\<close>, where \<^verbatim>\<open>**\<close> binds
  tighter than \<^verbatim>\<open>*\<close>.
\<close>

definition rerandomised :: "int \<Rightarrow> val \<times> val \<Rightarrow> int \<Rightarrow> int \<Rightarrow> error + (val \<times> val)" where
  "rerandomised q credential r t =
     ebind (py_pow q (fst credential) (Bn r)) (\<lambda>h'.
     ebind (py_pow q (fst credential) (Bn t)) (\<lambda>ht.
     ebind (py_pow q ht (Bn r)) (\<lambda>htr.
     ebind (py_mul q (snd credential) htr) (\<lambda>s'.
     Inr (h', s')))))"

text \<open>\<^verbatim>\<open>create_disclosure_proof(pk, credential, hidden_attributes, message)\<close>: the body
  ends after the assignment, so a call that raises nothing returns \<^verbatim>\<open>None\<close>.\<close>

definition create_disclosure_proof ::
  "int \<Rightarrow> val list \<Rightarrow> val \<times> val \<Rightarrow> int list \<Rightarrow> string \<Rightarrow> rng \<Rightarrow> error + (pyobj \<times> rng)" where
  "create_disclosure_proof q pk credential hidden_attributes message rs =
     (case random_bn q rs of (r, rs1) \<Rightarrow>
      case random_bn q rs1 of (t, rs2) \<Rightarrow>
      ebind (rerandomised q credential r t) (\<lambda>s.
      Inr (PyNone, rs2)))"

text \<open>\<^verbatim>\<open>verify_disclosure_proof(pk, disclosure_proof, message)\<close>: the body is
  \<^verbatim>\<open>raise NotImplementedError()\<close>.\<close>

definition verify_disclosure_proof :: "val list \<Rightarrow> pyobj \<Rightarrow> string \<Rightarrow> error + bool" where
  "verify_disclosure_proof pk disclosure_proof message = Inl NotImplementedError"

section \<open>Basic facts\<close>

lemma ebind_Inl [simp]: "ebind (Inl e) f = Inl e"
  by (simp add: ebind_def)

lemma ebind_Inr [simp]: "ebind (Inr x) f = f x"
  by (simp add: ebind_def)

lemma py_index_past_end: "py_index xs (int (length xs) + k) = Inl IndexError" if "0 \<le> k"
  using that by (simp add: py_index_def)

lemma float_slice_raises: "slice_from_num xs (num_add (true_div a b) k) = Inl TypeError"
  by (simp add: slice_from_num_def num_add_def true_div_def)

lemma verify_raises: "\<exists>e. verify q pk signature msgs = Inl e"
proof -
  have ix: "py_index msgs (int (length msgs) + 2) = Inl IndexError"
    by (rule py_index_past_end) simp
  show ?thesis
    unfolding verify_def Let_def
    by (cases "mapM (\<lambda>(a, b). py_pow q a (Bn b)) (zip (py_slice_from pk (int (length msgs) + 3)) msgs)";
        simp; rename_tac ps; case_tac "math_prod q ps"; simp add: ix)
qed

lemma mapM_total: "mapM (\<lambda>i. Inr (f i)) y = Inr (map f y)"
  by (induction y) simp_all

lemma randoms_length: "length (fst (randoms q n rs)) = n"
proof (induction n arbitrary: rs)
  case 0
  show ?case by simp
next
  case (Suc n)
  have "length (fst (randoms q n (snd (random_bn q rs)))) = n" by (rule Suc.IH)
  then show ?case by (auto split: prod.splits)
qed

lemma generate_key_value:
  "generate_key q a rs =
     (let x = fst (random_bn q rs);
          yr = randoms q (length a) (snd (random_bn q rs));
          y = fst yr
      in Inr ((Bn x # G1 ((1 mod q) * x mod q) # map Bn y,
               G1 (1 mod q) # map (\<lambda>i. G1 ((1 mod q) * i mod q)) y
                 @ G2 (1 mod q) # G2 ((1 mod q) * x mod q) # map (\<lambda>i. G2 ((1 mod q) * i mod q)) y),
              snd yr))"
  by (simp add: generate_key_def Let_def generator1_def generator2_def mapM_total
      split: prod.splits)

lemma mapM_mul_scalars:
  "mapM (\<lambda>(a, b). py_mul q (Bn a) b) (zip msgs (map Bn y)) = Inr (map (\<lambda>(a, b). Bn (a * b)) (zip msgs y))"
  by (induction msgs arbitrary: y) (simp, case_tac y, simp_all)

lemma py_sum_from_scalars:
  "py_sum_from (Bn acc) (map Bn zs) = Inr (Bn (acc + sum_list zs))"
  by (induction zs arbitrary: acc) simp_all

lemma sign_on_scalars:
  "sign q (Bn x # X_1 # map Bn y) msgs =
     Inr (generator1 q, G1 ((1 mod q) * (x + sum_list (map (\<lambda>(a, b). a * b) (zip msgs y))) mod q))"
proof -
  have m: "map (\<lambda>(a, b). Bn (a * b)) (zip msgs y) = map Bn (map (\<lambda>(a, b). a * b) (zip msgs y))"
    by (simp add: case_prod_unfold)
  show ?thesis
    by (simp add: sign_def Let_def py_index_def py_slice_from_def mapM_mul_scalars m
        py_sum_def py_sum_from_scalars generator1_def del: map_map)
qed


lemma mapM_pow_G2:
  "mapM (\<lambda>(a, b). py_pow q a (Bn b)) (zip (map G2 cs) msgs) =
     Inr (map G2 (map (\<lambda>(c, b). c * b mod q) (zip cs msgs)))"
proof (induction cs arbitrary: msgs)
  case Nil
  show ?case by simp
next
  case (Cons c cs)
  show ?case by (cases msgs) (simp_all add: Cons.IH)
qed

lemma math_prod_Nil: "math_prod q [] = Inr (Bn 1)"
  by (simp add: math_prod_def)

lemma math_prod_G2_Cons: "math_prod q (G2 c # vs) = Inl TypeError"
  by (simp add: math_prod_def)

lemma verify_on_key:
  assumes "length pre = length msgs + 3" and "length cs = length msgs"
  shows "verify q (pre @ map G2 cs) signature msgs
           = Inl (if msgs = [] then IndexError else TypeError)"
proof -
  have sl: "py_slice_from (pre @ map G2 cs) (int (length msgs) + 3) = map G2 cs"
    using assms(1) by (simp add: py_slice_from_def nat_add_distrib)
  have ix: "py_index msgs (int (length msgs) + 2) = Inl IndexError"
    by (rule py_index_past_end) simp
  show ?thesis
  proof (cases msgs)
    case Nil
    then have "cs = []" using assms(2) by simp
    then show ?thesis
      unfolding verify_def Let_def sl mapM_pow_G2 using Nil ix by (simp add: math_prod_Nil)
  next
    case (Cons b bs)
    then obtain c cs' where cs: "cs = c # cs'"
      using assms(2) by (cases cs) simp_all
    show ?thesis
      unfolding verify_def Let_def sl mapM_pow_G2 using Cons cs by (simp add: math_prod_G2_Cons)
  qed
qed

section \<open>Key generation\<close>

text \<open>
  C10. \<^verbatim>\<open>generate_key\<close> reads its argument only through \<^verbatim>\<open>len\<close>: on two attribute
  lists of the same length (whatever their elements) and the same random supply it returns
  the same key pair and leaves the same supply.
\<close>

theorem generate_key_length_only:
  "length a = length b \<Longrightarrow> generate_key q a rs = generate_key q b rs"
  by (simp add: generate_key_def)

theorem generate_key_length_only_witness:
  "length [25, 7, 2 :: int] = length [''age'', ''country'', ''role'']
   \<and> generate_key 11 [25, 7, 2 :: int] (\<lambda>n. int n + 2)
       = generate_key 11 [''age'', ''country'', ''role''] (\<lambda>n. int n + 2)"
  using generate_key_length_only
    [of "[25, 7, 2 :: int]" "[''age'', ''country'', ''role'']" 11 "\<lambda>n. int n + 2"]
  by simp

section \<open>Signing and verifying\<close>

text \<open>
  C1. The claim is that \<^verbatim>\<open>verify(pk, sign(sk, m), m)\<close> is true for every generated key
  pair. In the module the run of \<^verbatim>\<open>generate_key\<close>, \<^verbatim>\<open>sign\<close> and \<^verbatim>\<open>verify\<close> never
  returns true, for any attribute list, random supply and message vector; when the message
  vector has the length \<open>L\<close> of the attribute list, key generation and signing return and
  \<^verbatim>\<open>verify\<close> raises while it computes \<open>e1\<close>: for \<open>L > 0\<close> a \<^verbatim>\<open>TypeError\<close> in
  \<^verbatim>\<open>math.prod\<close>, whose first product is the integer 1 times an element of the second
  group, and for \<open>L = 0\<close> an \<^verbatim>\<open>IndexError\<close> at \<^verbatim>\<open>msgs[L+2]\<close>.
\<close>

theorem sign_then_verify_raises:
  "ebind (generate_key q attributes rs)
     (\<lambda>kp. ebind (sign q (fst (fst kp)) m) (\<lambda>sg. verify q (snd (fst kp)) sg m)) \<noteq> Inr True
   \<and> (length m = length attributes \<longrightarrow>
      ebind (generate_key q attributes rs)
        (\<lambda>kp. ebind (sign q (fst (fst kp)) m) (\<lambda>sg. verify q (snd (fst kp)) sg m))
        = Inl (if attributes = [] then IndexError else TypeError))"
proof -
  define x where "x = fst (random_bn q rs)"
  define y where "y = fst (randoms q (length attributes) (snd (random_bn q rs)))"
  define pre where
    "pre = G1 (1 mod q) # map (\<lambda>i. G1 ((1 mod q) * i mod q)) y
             @ [G2 (1 mod q), G2 ((1 mod q) * x mod q)]"
  define cs where "cs = map (\<lambda>i. (1 mod q) * i mod q) y"
  have ly: "length y = length attributes"
    unfolding y_def by (rule randoms_length)
  have run: "ebind (generate_key q attributes rs)
        (\<lambda>kp. ebind (sign q (fst (fst kp)) m) (\<lambda>sg. verify q (snd (fst kp)) sg m))
      = verify q (pre @ map G2 cs)
          (generator1 q, G1 ((1 mod q) * (x + sum_list (map (\<lambda>(a, b). a * b) (zip m y))) mod q)) m"
    by (simp add: generate_key_value Let_def sign_on_scalars x_def y_def pre_def cs_def comp_def)
  have a: "verify q (pre @ map G2 cs) sg m \<noteq> Inr True" for sg
  proof -
    obtain e where "verify q (pre @ map G2 cs) sg m = Inl e"
      using verify_raises by blast
    then show ?thesis by simp
  qed
  have b: "verify q (pre @ map G2 cs) sg m = Inl (if attributes = [] then IndexError else TypeError)"
    if "length m = length attributes" for sg
  proof -
    have "verify q (pre @ map G2 cs) sg m = Inl (if m = [] then IndexError else TypeError)"
      by (rule verify_on_key) (simp_all add: pre_def cs_def ly that)
    moreover have "(m = []) = (attributes = [])"
      using that by (metis length_0_conv)
    ultimately show ?thesis by simp
  qed
  show ?thesis
    unfolding run using a b by blast
qed

theorem sign_then_verify_raises_witness:
  "length [25, 7, 2 :: int] = length [''age'', ''country'', ''role'']
   \<and> ebind (generate_key 11 [''age'', ''country'', ''role''] (\<lambda>n. int n + 2))
        (\<lambda>kp. ebind (sign 11 (fst (fst kp)) [25, 7, 2])
           (\<lambda>sg. verify 11 (snd (fst kp)) sg [25, 7, 2]))
      = Inl TypeError"
  using sign_then_verify_raises [of 11 "[''age'', ''country'', ''role'']" "\<lambda>n. int n + 2" "[25, 7, 2]"]
  by simp

text \<open>
  C3. The claim is that \<^verbatim>\<open>verify\<close> returns false, raising nothing, when the first
  signature component is the group identity, and otherwise returns the truth value of the
  pairing equation. In the module every call of \<^verbatim>\<open>verify\<close> raises: \<open>e1\<close> is computed
  from \<^verbatim>\<open>math.prod(...) * msgs[L+2]\<close> before the identity test is reached, and that
  raises in \<^verbatim>\<open>math.prod\<close> or at the index \<open>L+2\<close>, so no call returns a boolean,
  and a signature whose first component is the neutral element is not answered with false.
\<close>

theorem verify_never_returns:
  "(\<exists>e. verify q pk signature msgs = Inl e)
   \<and> verify q pk (neutral_element1, s) msgs \<noteq> Inr False"
proof -
  obtain e where "verify q pk (neutral_element1, s) msgs = Inl e"
    using verify_raises by blast
  then have "verify q pk (neutral_element1, s) msgs \<noteq> Inr False" by simp
  then show ?thesis using verify_raises by blast
qed

text \<open>
  C4. The claim is that \<^verbatim>\<open>sign\<close> draws a fresh scalar \<open>r\<close> and returns \<open>(g1\<^sup>r, h\<^sup>e)\<close>
  with \<open>e = x + \<Sum> y\<^sub>i m\<^sub>i\<close>. In the module \<^verbatim>\<open>sign\<close> draws nothing: on a secret key
  \<open>[x, X1, y\<^sub>1, ..., y\<^sub>L]\<close> it returns the fixed generator of the first group as first component,
  the same for every call, and that generator raised to \<open>x + \<Sum> m\<^sub>i y\<^sub>i\<close> as second
  component.
\<close>

theorem sign_fixed_generator:
  "sign q (Bn x # X_1 # map Bn y) msgs =
     Inr (generator1 q, G1 ((1 mod q) * (x + sum_list (map (\<lambda>(a, b). a * b) (zip msgs y))) mod q))"
  by (rule sign_on_scalars)

section \<open>Issuance\<close>

text \<open>
  C6. The claim is that \<^verbatim>\<open>create_issue_request\<close> returns the pair \<open>(C, t)\<close> with
  \<open>C = g1\<^sup>t \<cdot> \<Prod> Y1\<^sub>i ^ a\<^sub>i\<close>. In the module \<open>L\<close> is the float \<^verbatim>\<open>(len(pk) - 3) / 2\<close>,
  so the slice \<^verbatim>\<open>pk[L+3:]\<close> raises \<^verbatim>\<open>TypeError\<close> on every non-empty key (and \<^verbatim>\<open>pk[0]\<close>
  raises \<^verbatim>\<open>IndexError\<close> on the empty one): no call returns.
\<close>

theorem create_issue_request_raises:
  "create_issue_request q pk user_attributes rs = Inl (if pk = [] then IndexError else TypeError)"
  by (simp add: create_issue_request_def Let_def float_slice_raises py_index_def
      split: prod.splits)

text \<open>
  C7. The claim is that \<^verbatim>\<open>sign_issue_request\<close> returns \<open>(g1\<^sup>u, (X1 \<cdot> C \<cdot> \<Prod> Y1\<^sub>i ^ a\<^sub>i)\<^sup>u)\<close>
  for a fresh \<open>u\<close>. In the module the slice \<^verbatim>\<open>pk[L+3:]\<close> with the float \<open>L\<close> raises
  \<^verbatim>\<open>TypeError\<close> on every call.
\<close>

theorem sign_issue_request_raises:
  "sign_issue_request q sk pk request issuer_attributes rs = Inl TypeError"
  by (simp add: sign_issue_request_def Let_def float_slice_raises split: prod.splits)

text \<open>
  C5. The claim is that \<^verbatim>\<open>obtain_credential\<close> is given the scalar \<open>t\<close> of the request and
  samples none. In the module it has no such parameter: it takes the next scalar of the
  random supply and divides the second component of the response by the first component
  raised to that new scalar.
\<close>

theorem obtain_credential_draws_t:
  "obtain_credential q pk (G1 a, G1 b) rs =
     Inr ((G1 a, G1 ((b - a * (rs 0 mod q) mod q) mod q)), \<lambda>n. rs (Suc n))"
  by (simp add: obtain_credential_def random_bn_def)

text \<open>
  C2. The claim is that \<^verbatim>\<open>create_issue_request\<close>, \<^verbatim>\<open>sign_issue_request\<close> and
  \<^verbatim>\<open>obtain_credential\<close> run in sequence yield a credential that \<^verbatim>\<open>verify\<close> accepts
  against the full attribute vector. In the module the run stops in its first step, for
  every key, attribute maps, secret key, message vector and random supply.
\<close>

theorem issuance_run_raises:
  "ebind (create_issue_request q pk hidden rs)
     (\<lambda>req. ebind (sign_issue_request q sk pk (fst req) known (snd req))
        (\<lambda>resp. ebind (obtain_credential q pk (fst resp) (snd resp))
           (\<lambda>cred. verify q pk (fst cred) m)))
   = Inl (if pk = [] then IndexError else TypeError)"
  by (simp add: create_issue_request_def Let_def float_slice_raises py_index_def
      split: prod.splits)

section \<open>Showing\<close>

text \<open>
  C8. The claim is that \<^verbatim>\<open>create_disclosure_proof\<close> forms \<open>h' = h\<^sup>r\<close> and
  \<open>s' = (s \<cdot> h\<^sup>t)\<^sup>r\<close> and returns a tuple \<open>(h', s', disclosed, \<pi>)\<close>. In the module no call
  returns a tuple; on a credential of two elements of the first group the call returns
  \<^verbatim>\<open>None\<close> after two draws, and the value assigned to the local \<^verbatim>\<open>s\<close> has the second
  component \<open>s \<cdot> (h\<^sup>t)\<^sup>r\<close>: for \<open>h = g1\<close>, \<open>s = g1\<^sup>3\<close>, \<open>r = 2\<close>, \<open>t = 3\<close> in a group
  of order 11 it is \<open>g1\<^sup>9\<close>, where \<open>(s \<cdot> h\<^sup>t)\<^sup>r\<close> is \<open>g1\<^sup>1\<close>.
\<close>

theorem create_disclosure_proof_returns_none:
  "create_disclosure_proof q pk credential hidden message rs \<noteq> Inr (PyTuple vs, rs')
   \<and> create_disclosure_proof q pk (G1 a, G1 b) hidden message rs
       = Inr (PyNone, \<lambda>n. rs (Suc (Suc n)))
   \<and> rerandomised q (G1 a, G1 b) r t
       = Inr (G1 (a * r mod q), G1 ((b + a * t mod q * r mod q) mod q))
   \<and> rerandomised 11 (G1 1, G1 3) 2 3 = Inr (G1 2, G1 9)
   \<and> ebind (py_pow 11 (G1 1) (Bn 3))
        (\<lambda>ht. ebind (py_mul 11 (G1 3) ht) (\<lambda>sh. py_pow 11 sh (Bn 2))) = Inr (G1 1)"
proof -
  have 1: "create_disclosure_proof q pk credential hidden message rs \<noteq> Inr (PyTuple vs, rs')"
    by (cases "rerandomised q credential (rs 0 mod q) (rs (Suc 0) mod q)")
       (simp_all add: create_disclosure_proof_def random_bn_def)
  have 2: "rerandomised q (G1 a, G1 b) r t
       = Inr (G1 (a * r mod q), G1 ((b + a * t mod q * r mod q) mod q))" for r t
    by (simp add: rerandomised_def)
  have 3: "create_disclosure_proof q pk (G1 a, G1 b) hidden message rs
       = Inr (PyNone, \<lambda>n. rs (Suc (Suc n)))"
    by (simp add: create_disclosure_proof_def random_bn_def 2)
  have 4: "rerandomised 11 (G1 1, G1 3) 2 3 = Inr (G1 2, G1 9)"
    by (simp add: rerandomised_def)
  have 5: "ebind (py_pow 11 (G1 1) (Bn 3))
        (\<lambda>ht. ebind (py_mul 11 (G1 3) ht) (\<lambda>sh. py_pow 11 sh (Bn 2))) = Inr (G1 1)"
    by simp
  show ?thesis using 1 2 3 4 5 by blast
qed

text \<open>
  C9. The claim is that \<^verbatim>\<open>verify_disclosure_proof\<close> rejects a proof with neutral \<open>h'\<close>,
  recomputes the challenge, accepts exactly the proofs whose equations hold and returns
  the disclosed attributes. In the module every call raises \<^verbatim>\<open>NotImplementedError\<close>.
\<close>

theorem verify_disclosure_proof_raises:
  "verify_disclosure_proof pk disclosure_proof message = Inl NotImplementedError"
  by (simp add: verify_disclosure_proof_def)

end
